theory Spec2Isabelle
  imports Main "HOL-Library.Word"
begin

section \<open>JavaScript values used by the address-book application\<close>

text \<open>
  A JavaScript string is a sequence of UTF-16 code units; \<open>length\<close>, \<open>trim\<close> and
  \<open>===\<close> all work on code units. The literals of the source are ASCII and are written
  \<open>utf16 ''...''\<close>.
\<close>

type_synonym code_unit = "16 word"

type_synonym js_string = "code_unit list"

definition utf16 :: "string \<Rightarrow> js_string" where
  "utf16 s = map of_char s"

text \<open>
  \<open>String.prototype.trim\<close> removes the WhiteSpace and LineTerminator code points of
  ECMAScript from both ends: TAB, LF, VT, FF, CR, SPACE, NBSP, U+1680, U+2000..U+200A,
  U+2028, U+2029, U+202F, U+205F, U+3000 and U+FEFF. All of them are single code units.
\<close>

definition isWhiteSpace :: "code_unit \<Rightarrow> bool" where
  "isWhiteSpace c \<longleftrightarrow>
     c \<in> {0x9, 0xA, 0xB, 0xC, 0xD, 0x20, 0xA0, 0x1680, 0x2028, 0x2029, 0x202F, 0x205F,
          0x3000, 0xFEFF}
     \<or> (0x2000 \<le> c \<and> c \<le> 0x200A)"

definition trim :: "js_string \<Rightarrow> js_string" where
  "trim s = rev (dropWhile isWhiteSpace (rev (dropWhile isWhiteSpace s)))"

text \<open>
  \<open>encodeURIComponent\<close> throws a URIError on a string with a lone surrogate and returns
  the percent-encoded string otherwise. Only whether it throws matters to the handlers, so
  the model keeps that test; a request carries its two parameters before encoding.
\<close>

definition isHighSurrogate :: "code_unit \<Rightarrow> bool" where
  "isHighSurrogate c \<longleftrightarrow> 0xD800 \<le> c \<and> c \<le> 0xDBFF"

definition isLowSurrogate :: "code_unit \<Rightarrow> bool" where
  "isLowSurrogate c \<longleftrightarrow> 0xDC00 \<le> c \<and> c \<le> 0xDFFF"

fun uriEncodable :: "js_string \<Rightarrow> bool" where
  "uriEncodable [] = True"
| "uriEncodable [c] = (\<not> isHighSurrogate c \<and> \<not> isLowSurrogate c)"
| "uriEncodable (c # d # cs) =
     (if isHighSurrogate c then isLowSurrogate d \<and> uriEncodable cs
      else \<not> isLowSurrogate c \<and> uriEncodable (d # cs))"

text \<open>
  The values that reach the house-number field of an address at run time: the type
  annotations of TypeScript are erased, and \<open>Array.prototype.map\<close> hands its callback a
  number as second argument.
\<close>

datatype js_value = JString js_string | JNumber nat

text \<open>
  \<open>Array.prototype.map\<close> calls its callback with the element, the element's index and the
  array itself, in index order, and collects the results.
\<close>

definition array_map :: "('a \<Rightarrow> nat \<Rightarrow> 'a list \<Rightarrow> 'b) \<Rightarrow> 'a list \<Rightarrow> 'b list" where
  "array_map callback array = map (\<lambda>(index, element). callback element index array) (enumerate 0 array)"

datatype js_error = URIError | NetworkFailure | ApiError nat | SyntaxError | TypeError

section \<open>The form-state hook \<open>useForm\<close>\<close>

text \<open>
  \<open>useForm<T extends Record<string, any>>(initialValues)\<close> keeps one state cell, the
  current values. \<open>handleChange\<close> reads \<open>name\<close>, \<open>type\<close>, \<open>value\<close> and \<open>checked\<close> of the
  event's target and replaces one property of the previous object by a spread;
  \<open>reset\<close> stores the \<open>initialValues\<close> it was created with, which is the argument of
  the hook (\<open>App\<close> passes the same literal at every render). Neither function mutates
  an object. For \<open>handleChange\<close> the object is a map from property names to values.
\<close>

datatype field_value = StringValue js_string | BooleanValue bool

record change_target =
  target_name :: js_string
  target_type :: js_string
  target_value :: js_string
  target_checked :: bool

type_synonym form_mapping = "js_string \<rightharpoonup> field_value"

definition handleChange :: "change_target \<Rightarrow> form_mapping \<Rightarrow> form_mapping" where
  "handleChange target prev =
     prev(target_name target \<mapsto>
       (if target_type target = utf16 ''checkbox'' then BooleanValue (target_checked target)
        else StringValue (target_value target)))"

definition reset :: "'t \<Rightarrow> 't \<Rightarrow> 't" where
  "reset initialValues current = initialValues"

section \<open>Data of the application\<close>

text \<open>
  Modelled from the spec: the types \<open>RawAddressModel\<close> and \<open>Address\<close> (\<open>core/models/address\<close>,
  \<open>types\<close>) are not among the sources. Section 3 of the specification gives a raw record
  an identifier, street, city and postcode, and an address an identifier, street, house
  number, city and postcode; an address-book entry is an address with the two names of a
  person.
\<close>

record raw_address =
  raw_id :: js_string
  raw_street :: js_string
  raw_city :: js_string
  raw_postcode :: js_string

record address =
  addr_id :: js_string
  addr_street :: js_string
  addr_houseNumber :: js_value
  addr_city :: js_string
  addr_postcode :: js_string

record address_book_entry = address +
  entry_firstName :: js_string
  entry_lastName :: js_string

text \<open>
  Modelled from the spec: \<open>transformAddress\<close> (\<open>core/models/address\<close>) is not among the
  sources. Section 4.2: a pure function of one raw record and a house number, whose result
  is one address with the house number injected alongside the fields copied from the raw
  record.
\<close>

definition transformAddress :: "raw_address \<Rightarrow> js_value \<Rightarrow> address" where
  "transformAddress raw houseNumber =
     \<lparr>addr_id = raw_id raw, addr_street = raw_street raw, addr_houseNumber = houseNumber,
      addr_city = raw_city raw, addr_postcode = raw_postcode raw\<rparr>"

text \<open>
  Modelled from the spec: \<open>addAddress\<close> of \<open>useAddressBook\<close> (the store of the address
  book) is not among the sources. Section 4.6: the single operation append(entry) adds one
  entry to the end of the ordered sequence, with no deduplication and no capacity limit.
\<close>

definition addAddress :: "address_book_entry \<Rightarrow> address_book_entry list \<Rightarrow> address_book_entry list" where
  "addAddress entry book = book @ [entry]"

text \<open>
  The five form fields of \<open>App\<close>, as the type argument of \<open>useForm\<close> there has them:
  all strings, all empty at the start.
\<close>

record form_values =
  postCode :: js_string
  houseNumber :: js_string
  firstName :: js_string
  lastName :: js_string
  selectedAddress :: js_string

definition initialValues :: form_values where
  "initialValues =
     \<lparr>postCode = [], houseNumber = [], firstName = [], lastName = [], selectedAddress = []\<rparr>"

text \<open>
  The outbound request \<open>GET {base}/api/getAddresses?postcode=..&streetnumber=..\<close>, and what
  the environment answers: \<open>fetch\<close> rejects, or resolves to a response with a status and a
  body. \<open>res.json()\<close> rejects on a body that is not JSON; a parsed body either has an array
  under \<open>details\<close> or makes \<open>json.details.map\<close> throw a TypeError.
\<close>

datatype request = GetAddresses (postcode_param: js_string) (streetnumber_param: js_string)

datatype response_body = MalformedJson | JsonWithoutDetails | JsonDetails "raw_address list"

datatype fetch_outcome = NetworkError | Response nat response_body

definition res_ok :: "nat \<Rightarrow> bool" where
  "res_ok status \<longleftrightarrow> 200 \<le> status \<and> status \<le> 299"

text \<open>
  The state of the page: the form values of \<open>useForm\<close>, the two \<open>useState\<close> cells
  \<open>error\<close> and \<open>addresses\<close>, the address-book store, and the two observable effect logs:
  what \<open>console.error\<close> received and which requests were issued.
\<close>

record app_state =
  formValues :: form_values
  error :: "js_string option"
  addresses :: "address list"
  addressBook :: "address_book_entry list"
  console :: "js_error list"
  requests :: "request list"

section \<open>The handlers of \<open>App\<close>\<close>

text \<open>
  The body of the \<open>try\<close> block of \<open>handleAddressSubmit\<close> (lines 69 to 82): the requests it
  issued, and either the error it threw or the transformed list. Building the URL throws
  before anything is sent when a parameter cannot be encoded. \<open>transform\<close> is the
  function handed to \<open>map\<close>; a JavaScript function of two parameters drops the third
  argument of the call.
\<close>

definition fetchAddresses ::
  "(raw_address \<Rightarrow> js_value \<Rightarrow> address) \<Rightarrow> (request \<Rightarrow> fetch_outcome) \<Rightarrow> js_string \<Rightarrow> js_string
     \<Rightarrow> request list \<times> (js_error + address list)" where
  "fetchAddresses transform fetch postCode' houseNumber' =
     (if uriEncodable postCode' \<and> uriEncodable houseNumber' then
        let req = GetAddresses postCode' houseNumber' in
        (case fetch req of
           NetworkError \<Rightarrow> ([req], Inl NetworkFailure)
         | Response status body \<Rightarrow>
             if \<not> res_ok status then ([req], Inl (ApiError status))
             else
               (case body of
                  MalformedJson \<Rightarrow> ([req], Inl SyntaxError)
                | JsonWithoutDetails \<Rightarrow> ([req], Inl TypeError)
                | JsonDetails details \<Rightarrow>
                    ([req], Inr (array_map (\<lambda>raw index array. transform raw (JNumber index)) details))))
      else ([], Inl URIError))"

text \<open>
  \<open>handleAddressSubmit\<close> (lines 58 to 88), from the click to the end of the asynchronous
  function, with no other event of the page in between. \<open>postCode\<close> and \<open>houseNumber\<close>
  are the values of the render the handler was created in.
\<close>

definition handleAddressSubmit ::
  "(raw_address \<Rightarrow> js_value \<Rightarrow> address) \<Rightarrow> (request \<Rightarrow> fetch_outcome) \<Rightarrow> app_state \<Rightarrow> app_state" where
  "handleAddressSubmit transform fetch st =
     (let cleared = st\<lparr>addresses := [], error := None\<rparr>;
          postCode' = postCode (formValues st);
          houseNumber' = houseNumber (formValues st)
      in
        if trim postCode' = [] \<or> trim houseNumber' = [] then
          cleared\<lparr>error := Some (utf16 ''Post code and house number are mandatory!'')\<rparr>
        else
          (case fetchAddresses transform fetch postCode' houseNumber' of
             (issued, Inr transformed) \<Rightarrow>
               cleared\<lparr>requests := requests st @ issued, addresses := transformed\<rparr>
           | (issued, Inl err) \<Rightarrow>
               cleared\<lparr>requests := requests st @ issued, console := console st @ [err],
                 error := Some (utf16 ''Failed to fetch addresses. Please try again.'')\<rparr>))"

text \<open>The object \<open>{ ...foundAddress, firstName, lastName }\<close>.\<close>

definition withPerson :: "address \<Rightarrow> js_string \<Rightarrow> js_string \<Rightarrow> address_book_entry" where
  "withPerson foundAddress firstName' lastName' =
     \<lparr>addr_id = addr_id foundAddress, addr_street = addr_street foundAddress,
      addr_houseNumber = addr_houseNumber foundAddress, addr_city = addr_city foundAddress,
      addr_postcode = addr_postcode foundAddress,
      entry_firstName = firstName', entry_lastName = lastName'\<rparr>"

text \<open>
  \<open>handlePersonSubmit\<close> (lines 93 to 118). \<open>add\<close> is the store's \<open>addAddress\<close>, applied
  to the store's list.
\<close>

definition handlePersonSubmit ::
  "(address_book_entry \<Rightarrow> address_book_entry list \<Rightarrow> address_book_entry list) \<Rightarrow> app_state \<Rightarrow> app_state" where
  "handlePersonSubmit add st =
     (let firstName' = firstName (formValues st);
          lastName' = lastName (formValues st);
          selectedAddress' = selectedAddress (formValues st)
      in
        if trim firstName' = [] \<or> trim lastName' = [] then
          st\<lparr>error := Some (utf16 ''First name and last name fields mandatory!'')\<rparr>
        else if selectedAddress' = [] \<or> addresses st = [] then
          st\<lparr>error := Some (utf16
            ''No address selected, try to select an address or find one if you haven't'')\<rparr>
        else
          (case find (\<lambda>address. addr_id address = selectedAddress') (addresses st) of
             None \<Rightarrow> st\<lparr>error := Some (utf16 ''Selected address not found'')\<rparr>
           | Some foundAddress \<Rightarrow>
               st\<lparr>addressBook := add (withPerson foundAddress firstName' lastName') (addressBook st)\<rparr>))"

text \<open>The click handler of the button "Clear all fields" (lines 205 to 209).\<close>

definition clearAllFields :: "app_state \<Rightarrow> app_state" where
  "clearAllFields st =
     st\<lparr>formValues := reset initialValues (formValues st), addresses := [], error := None\<rparr>"


section \<open>Example inputs\<close>

text \<open>
  The end-to-end scenario of the specification: postcode "1345", house number "350", one
  raw record with identifier "1" in the response, the names "A" and "B", and the first
  radio button selected.
\<close>

definition example_raw :: raw_address where
  "example_raw =
     \<lparr>raw_id = utf16 ''1'', raw_street = utf16 ''Main'', raw_city = utf16 ''X'',
      raw_postcode = utf16 ''1345''\<rparr>"

definition example_other_raw :: raw_address where
  "example_other_raw =
     \<lparr>raw_id = utf16 ''2'', raw_street = utf16 ''Side'', raw_city = utf16 ''Y'',
      raw_postcode = utf16 ''1345''\<rparr>"

definition example_state :: app_state where
  "example_state =
     \<lparr>formValues =
        \<lparr>postCode = utf16 ''1345'', houseNumber = utf16 ''350'', firstName = utf16 ''A'',
         lastName = utf16 ''B'', selectedAddress = utf16 ''1''\<rparr>,
      error = None, addresses = [], addressBook = [], console = [], requests = []\<rparr>"

text \<open>The same page with one address on display, the one that is selected.\<close>

definition found_state :: app_state where
  "found_state =
     example_state\<lparr>addresses := [transformAddress example_raw (JString (utf16 ''350''))]\<rparr>"

text \<open>The page with one address on display, an old error message and a blank house number.\<close>

definition blank_house_state :: app_state where
  "blank_house_state =
     found_state\<lparr>formValues := (formValues found_state)\<lparr>houseNumber := utf16 '' ''\<rparr>,
       error := Some (utf16 ''Selected address not found'')\<rparr>"

text \<open>The page with one address on display and a last name of one space.\<close>

definition blank_name_state :: app_state where
  "blank_name_state =
     found_state\<lparr>formValues := (formValues found_state)\<lparr>lastName := utf16 '' ''\<rparr>\<rparr>"

text \<open>The page with one address on display and a selection that is not on display.\<close>

definition other_selection_state :: app_state where
  "other_selection_state =
     found_state\<lparr>formValues := (formValues found_state)\<lparr>selectedAddress := utf16 ''2''\<rparr>\<rparr>"

text \<open>Four answers of the environment, whatever the request.\<close>

definition fetch_one :: "request \<Rightarrow> fetch_outcome" where
  "fetch_one req = Response 200 (JsonDetails [example_raw])"

definition fetch_other :: "request \<Rightarrow> fetch_outcome" where
  "fetch_other req = Response 200 (JsonDetails [example_other_raw])"

definition fetch_none :: "request \<Rightarrow> fetch_outcome" where
  "fetch_none req = Response 200 (JsonDetails [])"

definition fetch_unavailable :: "request \<Rightarrow> fetch_outcome" where
  "fetch_unavailable req = Response 503 MalformedJson"

text \<open>A change event of a text input, and a mapping with two fields.\<close>

definition example_target :: change_target where
  "example_target =
     \<lparr>target_name = utf16 ''firstName'', target_type = utf16 ''text'',
      target_value = utf16 ''A'', target_checked = False\<rparr>"

definition example_mapping :: form_mapping where
  "example_mapping =
     [utf16 ''firstName'' \<mapsto> StringValue [], utf16 ''lastName'' \<mapsto> StringValue (utf16 ''B'')]"

lemmas string_defs =
  utf16_def trim_def isWhiteSpace_def isHighSurrogate_def isLowSurrogate_def

section \<open>Auxiliary facts\<close>

subsection \<open>Trimming\<close>

lemma dropWhile_all_iff: "(\<forall>x\<in>set (dropWhile P xs). P x) \<longleftrightarrow> (\<forall>x\<in>set xs. P x)"
  by (induction xs) auto

text \<open>A string is empty after trimming exactly when it is empty or whitespace only.\<close>

lemma trim_empty_iff: "trim s = [] \<longleftrightarrow> (\<forall>c\<in>set s. isWhiteSpace c)"
  by (simp add: trim_def dropWhile_eq_Nil_conv dropWhile_all_iff)

subsection \<open>\<open>Array.prototype.map\<close>\<close>

lemma array_map_length: "length (array_map callback array) = length array"
  by (simp add: array_map_def)

lemma array_map_nth:
  "i < length array \<Longrightarrow> array_map callback array ! i = callback (array ! i) i array"
  by (simp add: array_map_def nth_enumerate_eq)

subsection \<open>Looking up the selected address\<close>

lemma find_none_iff_ids:
  "find (\<lambda>address. addr_id address = sel) as = None
     \<longleftrightarrow> (\<forall>address \<in> set as. addr_id address \<noteq> sel)"
  by (auto simp: find_None_iff)

lemma find_id_Some:
  assumes "\<exists>address \<in> set as. addr_id address = sel"
  shows "\<exists>found. find (\<lambda>address. addr_id address = sel) as = Some found
           \<and> found \<in> set as \<and> addr_id found = sel"
  using assms by (induction as) auto

lemma truncate_withPerson: "address.truncate (withPerson a f l) = a"
  by (simp add: withPerson_def address.truncate_def)

lemma names_withPerson:
  "entry_firstName (withPerson a f l) = f" "entry_lastName (withPerson a f l) = l"
  by (simp_all add: withPerson_def)

subsection \<open>The two outcomes of the validation of a search\<close>

lemma handleAddressSubmit_invalid:
  assumes "trim (postCode (formValues st)) = [] \<or> trim (houseNumber (formValues st)) = []"
  shows "handleAddressSubmit transform fetch st =
    st\<lparr>addresses := [], error := Some (utf16 ''Post code and house number are mandatory!'')\<rparr>"
  using assms by (simp add: handleAddressSubmit_def Let_def)

lemma handleAddressSubmit_valid:
  assumes "trim (postCode (formValues st)) \<noteq> []" "trim (houseNumber (formValues st)) \<noteq> []"
  shows "handleAddressSubmit transform fetch st =
    (case fetchAddresses transform fetch (postCode (formValues st)) (houseNumber (formValues st)) of
       (issued, Inr transformed) \<Rightarrow>
         st\<lparr>addresses := transformed, error := None, requests := requests st @ issued\<rparr>
     | (issued, Inl err) \<Rightarrow>
         st\<lparr>addresses := [],
            error := Some (utf16 ''Failed to fetch addresses. Please try again.''),
            console := console st @ [err], requests := requests st @ issued\<rparr>)"
  using assms by (simp add: handleAddressSubmit_def Let_def split: prod.splits sum.splits)

lemma formValues_handleAddressSubmit:
  "formValues (handleAddressSubmit transform fetch st) = formValues st"
  by (simp add: handleAddressSubmit_def Let_def split: prod.splits sum.splits)

text \<open>
  What a successful search leaves on display: one entry per raw record, in the order of
  the response, entry \<open>i\<close> being the transformer applied to record \<open>i\<close> and to the
  number \<open>i\<close>. The house number of the form is sent in the request and nowhere else.
\<close>

lemma search_success_result:
  assumes valid: "trim (postCode (formValues st)) \<noteq> []" "trim (houseNumber (formValues st)) \<noteq> []"
    and encodable: "uriEncodable (postCode (formValues st))" "uriEncodable (houseNumber (formValues st))"
    and response: "fetch (GetAddresses (postCode (formValues st)) (houseNumber (formValues st))) =
      Response status (JsonDetails details)" "res_ok status"
  shows "handleAddressSubmit transform fetch st =
    st\<lparr>addresses := array_map (\<lambda>raw index array. transform raw (JNumber index)) details,
       error := None,
       requests := requests st @ [GetAddresses (postCode (formValues st)) (houseNumber (formValues st))]\<rparr>"
  using encodable response
  by (simp add: handleAddressSubmit_valid [OF valid] fetchAddresses_def Let_def)

lemma search_success_entries:
  assumes valid: "trim (postCode (formValues st)) \<noteq> []" "trim (houseNumber (formValues st)) \<noteq> []"
    and encodable: "uriEncodable (postCode (formValues st))" "uriEncodable (houseNumber (formValues st))"
    and response: "fetch (GetAddresses (postCode (formValues st)) (houseNumber (formValues st))) =
      Response status (JsonDetails details)" "res_ok status"
  shows "length (addresses (handleAddressSubmit transform fetch st)) = length details"
    and "i < length details \<Longrightarrow>
      addresses (handleAddressSubmit transform fetch st) ! i = transform (details ! i) (JNumber i)"
proof -
  have result: "addresses (handleAddressSubmit transform fetch st) =
      array_map (\<lambda>raw index array. transform raw (JNumber index)) details"
    by (simp add: search_success_result [where fetch = fetch and st = st, OF assms])
  show "length (addresses (handleAddressSubmit transform fetch st)) = length details"
    by (simp add: result array_map_length)
  show "i < length details \<Longrightarrow>
      addresses (handleAddressSubmit transform fetch st) ! i = transform (details ! i) (JNumber i)"
    by (simp add: result array_map_nth)
qed

section \<open>Properties of the form-state hook\<close>

text \<open>
  C6. Whatever the initial mapping \<open>V\<close> given to the hook and whatever finite sequence of
  change events is applied to it, \<open>reset\<close> afterwards leaves exactly \<open>V\<close> as the current
  mapping.
\<close>

theorem reset_restores_initial:
  "reset V (foldl (\<lambda>current target. handleChange target current) V targets) = V"
  by (simp add: reset_def)

text \<open>
  C7. \<open>handleChange\<close> stores, under the name of the target, the boolean \<open>checked\<close> when the
  target is a checkbox and the string \<open>value\<close> otherwise, and every other entry of the
  mapping is what it was.
\<close>

theorem handleChange_replaces_one_entry:
  "handleChange target prev (target_name target) =
     Some (if target_type target = utf16 ''checkbox'' then BooleanValue (target_checked target)
           else StringValue (target_value target))
   \<and> (\<forall>name. name \<noteq> target_name target \<longrightarrow> handleChange target prev name = prev name)"
  by (simp add: handleChange_def)

theorem handleChange_replaces_one_entry_witness:
  "handleChange example_target example_mapping (utf16 ''firstName'') = Some (StringValue (utf16 ''A''))
   \<and> handleChange example_target example_mapping (utf16 ''lastName'') = Some (StringValue (utf16 ''B''))"
proof -
  have other: "utf16 ''lastName'' \<noteq> target_name example_target"
    and plain: "target_type example_target \<noteq> utf16 ''checkbox''"
    by (simp_all add: example_target_def utf16_def)
  from handleChange_replaces_one_entry [of example_target example_mapping] other plain
  have "handleChange example_target example_mapping (target_name example_target) =
      Some (StringValue (target_value example_target))"
    and "handleChange example_target example_mapping (utf16 ''lastName'') =
      example_mapping (utf16 ''lastName'')"
    by simp_all
  then show ?thesis
    by (simp add: example_target_def example_mapping_def utf16_def)
qed

section \<open>Properties of the search workflow\<close>

text \<open>
  C4. When the postcode or the house number is empty after trimming, a search submission
  issues no request, whatever the environment would have answered, and the error message
  is exactly "Post code and house number are mandatory!".
\<close>

theorem search_validation_failure:
  assumes "trim (postCode (formValues st)) = [] \<or> trim (houseNumber (formValues st)) = []"
  shows "requests (handleAddressSubmit transform fetch st) = requests st
    \<and> error (handleAddressSubmit transform fetch st) =
        Some (utf16 ''Post code and house number are mandatory!'')
    \<and> (\<forall>fetch'. handleAddressSubmit transform fetch' st = handleAddressSubmit transform fetch st)"
  using assms by (simp add: handleAddressSubmit_invalid)

theorem search_validation_failure_witness:
  "requests (handleAddressSubmit transformAddress fetch_one blank_house_state) = []
   \<and> error (handleAddressSubmit transformAddress fetch_one blank_house_state) =
       Some (utf16 ''Post code and house number are mandatory!'')"
proof -
  have blank: "trim (postCode (formValues blank_house_state)) = []
      \<or> trim (houseNumber (formValues blank_house_state)) = []"
    by (simp add: blank_house_state_def found_state_def example_state_def example_raw_def string_defs)
  have before: "requests blank_house_state = []"
    by (simp add: blank_house_state_def found_state_def example_state_def example_raw_def)
  from search_validation_failure [where st = blank_house_state and transform = transformAddress
      and fetch = fetch_one, OF blank] before
  show ?thesis by simp
qed

text \<open>
  C9. A search submission starts by emptying the result list and clearing the error
  message: its outcome is the outcome on the page with both already cleared. When the
  validation then fails, the result list is empty and the error message is the one about
  the mandatory fields.
\<close>

theorem search_clears_first:
  "handleAddressSubmit transform fetch st =
     handleAddressSubmit transform fetch (st\<lparr>addresses := [], error := None\<rparr>)
   \<and> (trim (postCode (formValues st)) = [] \<or> trim (houseNumber (formValues st)) = [] \<longrightarrow>
        addresses (handleAddressSubmit transform fetch st) = []
        \<and> error (handleAddressSubmit transform fetch st) =
            Some (utf16 ''Post code and house number are mandatory!''))"
  by (simp add: handleAddressSubmit_def Let_def split: prod.splits sum.splits)

theorem search_clears_first_witness:
  "addresses blank_house_state \<noteq> []
   \<and> error blank_house_state = Some (utf16 ''Selected address not found'')
   \<and> addresses (handleAddressSubmit transformAddress fetch_one blank_house_state) = []
   \<and> error (handleAddressSubmit transformAddress fetch_one blank_house_state) =
       Some (utf16 ''Post code and house number are mandatory!'')"
proof -
  have blank: "trim (houseNumber (formValues blank_house_state)) = []"
    by (simp add: blank_house_state_def found_state_def example_state_def example_raw_def string_defs)
  have before: "addresses blank_house_state \<noteq> []"
      "error blank_house_state = Some (utf16 ''Selected address not found'')"
    by (simp_all add: blank_house_state_def found_state_def)
  from search_clears_first [of transformAddress fetch_one blank_house_state] blank before
  show ?thesis by blast
qed

text \<open>
  C3. When a search submission passes the validation and its request fails, by a rejected
  \<open>fetch\<close>, a status outside 200..299 or a body that is not JSON, the result list ends up
  empty whatever it held, the error message is exactly "Failed to fetch addresses. Please
  try again.", and the error that was thrown is appended to the console log and appears in
  no other part of the state.
\<close>

theorem search_fetch_failure:
  assumes valid: "trim (postCode (formValues st)) \<noteq> []" "trim (houseNumber (formValues st)) \<noteq> []"
    and encodable: "uriEncodable (postCode (formValues st))" "uriEncodable (houseNumber (formValues st))"
    and failed:
      "fetch (GetAddresses (postCode (formValues st)) (houseNumber (formValues st))) = NetworkError
       \<or> (\<exists>status body.
            fetch (GetAddresses (postCode (formValues st)) (houseNumber (formValues st))) =
              Response status body \<and> \<not> res_ok status)
       \<or> (\<exists>status.
            fetch (GetAddresses (postCode (formValues st)) (houseNumber (formValues st))) =
              Response status MalformedJson)"
  shows "handleAddressSubmit transform fetch st =
      st\<lparr>addresses := [],
         error := Some (utf16 ''Failed to fetch addresses. Please try again.''),
         console := console st @
           [case fetch (GetAddresses (postCode (formValues st)) (houseNumber (formValues st))) of
              NetworkError \<Rightarrow> NetworkFailure
            | Response status body \<Rightarrow> if res_ok status then SyntaxError else ApiError status],
         requests := requests st @
           [GetAddresses (postCode (formValues st)) (houseNumber (formValues st))]\<rparr>"
proof -
  let ?req = "GetAddresses (postCode (formValues st)) (houseNumber (formValues st))"
  let ?err = "case fetch ?req of NetworkError \<Rightarrow> NetworkFailure
    | Response status body \<Rightarrow> if res_ok status then SyntaxError else ApiError status"
  have "fetchAddresses transform fetch (postCode (formValues st)) (houseNumber (formValues st)) =
      ([?req], Inl ?err)"
    using encodable failed by (auto simp: fetchAddresses_def Let_def)
  then show ?thesis
    by (simp add: handleAddressSubmit_valid [OF valid])
qed

theorem search_fetch_failure_witness:
  "addresses found_state \<noteq> []
   \<and> addresses (handleAddressSubmit transformAddress fetch_unavailable found_state) = []
   \<and> error (handleAddressSubmit transformAddress fetch_unavailable found_state) =
       Some (utf16 ''Failed to fetch addresses. Please try again.'')
   \<and> console (handleAddressSubmit transformAddress fetch_unavailable found_state) = [ApiError 503]"
proof -
  have valid: "trim (postCode (formValues found_state)) \<noteq> []"
      "trim (houseNumber (formValues found_state)) \<noteq> []"
    and encodable: "uriEncodable (postCode (formValues found_state))"
      "uriEncodable (houseNumber (formValues found_state))"
    by (simp_all add: found_state_def example_state_def example_raw_def fetch_unavailable_def string_defs)
  have failed: "fetch_unavailable
      (GetAddresses (postCode (formValues found_state)) (houseNumber (formValues found_state))) =
        NetworkError
    \<or> (\<exists>status body. fetch_unavailable
      (GetAddresses (postCode (formValues found_state)) (houseNumber (formValues found_state))) =
        Response status body \<and> \<not> res_ok status)
    \<or> (\<exists>status. fetch_unavailable
      (GetAddresses (postCode (formValues found_state)) (houseNumber (formValues found_state))) =
        Response status MalformedJson)"
    by (simp add: fetch_unavailable_def)
  have before: "addresses found_state \<noteq> []" "console found_state = []"
    by (simp_all add: found_state_def example_state_def example_raw_def fetch_unavailable_def)
  from search_fetch_failure [where fetch = fetch_unavailable and st = found_state
      and transform = transformAddress, OF valid encodable failed] before
  show ?thesis
    by (simp add: fetch_unavailable_def res_ok_def)
qed


text \<open>
  C1. In the end-to-end scenario of the specification (postcode "1345", house number
  "350", one raw record in a response with status 200) the search leaves one address on
  display, with the fields of the raw record, whose house number is the index 0 that
  \<open>map\<close> handed to the transformer and not the house number "350" of the form.
\<close>

theorem search_success_passes_index:
  "addresses (handleAddressSubmit transformAddress fetch_one example_state) =
     [\<lparr>addr_id = utf16 ''1'', addr_street = utf16 ''Main'', addr_houseNumber = JNumber 0,
       addr_city = utf16 ''X'', addr_postcode = utf16 ''1345''\<rparr>]
   \<and> houseNumber (formValues example_state) = utf16 ''350''
   \<and> map addr_houseNumber (addresses (handleAddressSubmit transformAddress fetch_one example_state))
       \<noteq> [JString (utf16 ''350'')]"
  by (simp add: handleAddressSubmit_valid fetchAddresses_def array_map_def enumerate_eq_zip
      example_state_def example_raw_def fetch_one_def string_defs res_ok_def transformAddress_def)

text \<open>
  C10. A search submission leaves the five form values as they were, the selection
  included. When afterwards both names are non-empty after trimming, the selection is
  non-empty, the new result list is non-empty and no entry of it has the selected
  identifier, a person submission ends with the error "Selected address not found".
\<close>

theorem search_keeps_form_values:
  "formValues (handleAddressSubmit transform fetch st) = formValues st
   \<and> (trim (firstName (formValues st)) \<noteq> [] \<and> trim (lastName (formValues st)) \<noteq> []
      \<and> selectedAddress (formValues st) \<noteq> []
      \<and> addresses (handleAddressSubmit transform fetch st) \<noteq> []
      \<and> (\<forall>address \<in> set (addresses (handleAddressSubmit transform fetch st)).
            addr_id address \<noteq> selectedAddress (formValues st)) \<longrightarrow>
        error (handlePersonSubmit add (handleAddressSubmit transform fetch st)) =
          Some (utf16 ''Selected address not found''))"
proof (intro conjI impI)
  show kept: "formValues (handleAddressSubmit transform fetch st) = formValues st"
    by (rule formValues_handleAddressSubmit)
  assume a: "trim (firstName (formValues st)) \<noteq> [] \<and> trim (lastName (formValues st)) \<noteq> []
      \<and> selectedAddress (formValues st) \<noteq> []
      \<and> addresses (handleAddressSubmit transform fetch st) \<noteq> []
      \<and> (\<forall>address \<in> set (addresses (handleAddressSubmit transform fetch st)).
            addr_id address \<noteq> selectedAddress (formValues st))"
  then have "find (\<lambda>address. addr_id address = selectedAddress (formValues st))
      (addresses (handleAddressSubmit transform fetch st)) = None"
    by (simp add: find_none_iff_ids)
  with a show "error (handlePersonSubmit add (handleAddressSubmit transform fetch st)) =
      Some (utf16 ''Selected address not found'')"
    by (simp add: handlePersonSubmit_def Let_def kept)
qed

theorem search_keeps_form_values_witness:
  "selectedAddress (formValues (handleAddressSubmit transformAddress fetch_other found_state)) =
     utf16 ''1''
   \<and> error (handlePersonSubmit addAddress
        (handleAddressSubmit transformAddress fetch_other found_state)) =
       Some (utf16 ''Selected address not found'')"
proof -
  have after: "addresses (handleAddressSubmit transformAddress fetch_other found_state) =
      [transformAddress example_other_raw (JNumber 0)]"
    by (simp add: handleAddressSubmit_valid fetchAddresses_def array_map_def enumerate_eq_zip
        found_state_def example_state_def example_raw_def example_other_raw_def fetch_other_def string_defs res_ok_def)
  have pre: "trim (firstName (formValues found_state)) \<noteq> []
      \<and> trim (lastName (formValues found_state)) \<noteq> []
      \<and> selectedAddress (formValues found_state) \<noteq> []
      \<and> addresses (handleAddressSubmit transformAddress fetch_other found_state) \<noteq> []
      \<and> (\<forall>address \<in> set (addresses (handleAddressSubmit transformAddress fetch_other found_state)).
            addr_id address \<noteq> selectedAddress (formValues found_state))"
    unfolding after
    by (simp add: found_state_def example_state_def example_raw_def example_other_raw_def fetch_other_def string_defs transformAddress_def)
  have selected: "selectedAddress (formValues found_state) = utf16 ''1''"
    by (simp add: found_state_def example_state_def example_raw_def example_other_raw_def fetch_other_def)
  from search_keeps_form_values [of transformAddress fetch_other found_state addAddress] pre selected
  show ?thesis by simp
qed

text \<open>
  The claim without the conditions on the names and on the new result list fails twice.
  A search that finds nothing leaves no entry with the selected identifier "1", and the
  person submission then ends with the error about the missing selection. A search that
  finds only the address "2", on a page whose last name is blank, leaves no entry with the
  selected identifier either, and the person submission ends with the error about the names.
\<close>

theorem stale_selection_counterexample:
  "selectedAddress (formValues (handleAddressSubmit transformAddress fetch_none found_state)) =
     utf16 ''1''
   \<and> addresses (handleAddressSubmit transformAddress fetch_none found_state) = []
   \<and> error (handlePersonSubmit addAddress
        (handleAddressSubmit transformAddress fetch_none found_state)) =
       Some (utf16 ''No address selected, try to select an address or find one if you haven't'')
   \<and> error (handlePersonSubmit addAddress
        (handleAddressSubmit transformAddress fetch_none found_state)) \<noteq>
       Some (utf16 ''Selected address not found'')
   \<and> selectedAddress (formValues (handleAddressSubmit transformAddress fetch_other blank_name_state)) =
       utf16 ''1''
   \<and> map addr_id (addresses (handleAddressSubmit transformAddress fetch_other blank_name_state)) =
       [utf16 ''2'']
   \<and> error (handlePersonSubmit addAddress
        (handleAddressSubmit transformAddress fetch_other blank_name_state)) =
       Some (utf16 ''First name and last name fields mandatory!'')
   \<and> error (handlePersonSubmit addAddress
        (handleAddressSubmit transformAddress fetch_other blank_name_state)) \<noteq>
       Some (utf16 ''Selected address not found'')"
proof -
  have none: "handleAddressSubmit transformAddress fetch_none found_state =
      found_state\<lparr>addresses := [], requests := [GetAddresses (utf16 ''1345'') (utf16 ''350'')]\<rparr>"
    by (simp add: handleAddressSubmit_valid fetchAddresses_def array_map_def enumerate_eq_zip
        blank_name_state_def found_state_def example_state_def example_raw_def example_other_raw_def fetch_other_def fetch_none_def string_defs res_ok_def)
  have other: "handleAddressSubmit transformAddress fetch_other blank_name_state =
      blank_name_state\<lparr>addresses := [transformAddress example_other_raw (JNumber 0)],
        requests := [GetAddresses (utf16 ''1345'') (utf16 ''350'')]\<rparr>"
    by (simp add: handleAddressSubmit_valid fetchAddresses_def array_map_def enumerate_eq_zip
        blank_name_state_def found_state_def example_state_def example_raw_def example_other_raw_def fetch_other_def fetch_none_def string_defs res_ok_def)
  show ?thesis
    unfolding none other
    by (simp add: handlePersonSubmit_def blank_name_state_def found_state_def example_state_def example_raw_def example_other_raw_def fetch_other_def fetch_none_def string_defs transformAddress_def)
qed

section \<open>Properties of the person-detail workflow\<close>

text \<open>
  C2. A person submission checks in this order and stops at the first failure: a first or
  last name that is empty after trimming gives exactly the error "First name and last name
  fields mandatory!"; otherwise an empty selection or an empty result list gives exactly
  "No address selected, try to select an address or find one if you haven't"; otherwise a
  selection that is the identifier of no entry of the result list gives exactly "Selected
  address not found". In each of the three cases the address book is left as it was,
  whatever the store's append operation does.
\<close>

theorem person_validation_order:
  "(trim (firstName (formValues st)) = [] \<or> trim (lastName (formValues st)) = [] \<longrightarrow>
      error (handlePersonSubmit add st) =
        Some (utf16 ''First name and last name fields mandatory!'')
      \<and> addressBook (handlePersonSubmit add st) = addressBook st)
   \<and> (trim (firstName (formValues st)) \<noteq> [] \<and> trim (lastName (formValues st)) \<noteq> []
      \<and> (selectedAddress (formValues st) = [] \<or> addresses st = []) \<longrightarrow>
      error (handlePersonSubmit add st) =
        Some (utf16 ''No address selected, try to select an address or find one if you haven't'')
      \<and> addressBook (handlePersonSubmit add st) = addressBook st)
   \<and> (trim (firstName (formValues st)) \<noteq> [] \<and> trim (lastName (formValues st)) \<noteq> []
      \<and> selectedAddress (formValues st) \<noteq> [] \<and> addresses st \<noteq> []
      \<and> (\<forall>address \<in> set (addresses st). addr_id address \<noteq> selectedAddress (formValues st)) \<longrightarrow>
      error (handlePersonSubmit add st) = Some (utf16 ''Selected address not found'')
      \<and> addressBook (handlePersonSubmit add st) = addressBook st)"
proof (intro conjI impI)
  assume "trim (firstName (formValues st)) = [] \<or> trim (lastName (formValues st)) = []"
  then have "handlePersonSubmit add st =
      st\<lparr>error := Some (utf16 ''First name and last name fields mandatory!'')\<rparr>"
    by (simp add: handlePersonSubmit_def Let_def)
  then show "error (handlePersonSubmit add st) =
      Some (utf16 ''First name and last name fields mandatory!'')"
    and "addressBook (handlePersonSubmit add st) = addressBook st"
    by simp_all
next
  assume "trim (firstName (formValues st)) \<noteq> [] \<and> trim (lastName (formValues st)) \<noteq> []
      \<and> (selectedAddress (formValues st) = [] \<or> addresses st = [])"
  then have "handlePersonSubmit add st =
      st\<lparr>error := Some (utf16
        ''No address selected, try to select an address or find one if you haven't'')\<rparr>"
    by (simp add: handlePersonSubmit_def Let_def)
  then show "error (handlePersonSubmit add st) =
      Some (utf16 ''No address selected, try to select an address or find one if you haven't'')"
    and "addressBook (handlePersonSubmit add st) = addressBook st"
    by simp_all
next
  assume a: "trim (firstName (formValues st)) \<noteq> [] \<and> trim (lastName (formValues st)) \<noteq> []
      \<and> selectedAddress (formValues st) \<noteq> [] \<and> addresses st \<noteq> []
      \<and> (\<forall>address \<in> set (addresses st). addr_id address \<noteq> selectedAddress (formValues st))"
  then have "find (\<lambda>address. addr_id address = selectedAddress (formValues st)) (addresses st) = None"
    by (simp add: find_none_iff_ids)
  with a have "handlePersonSubmit add st =
      st\<lparr>error := Some (utf16 ''Selected address not found'')\<rparr>"
    by (simp add: handlePersonSubmit_def Let_def)
  then show "error (handlePersonSubmit add st) = Some (utf16 ''Selected address not found'')"
    and "addressBook (handlePersonSubmit add st) = addressBook st"
    by simp_all
qed

theorem person_validation_order_witness:
  "error (handlePersonSubmit addAddress blank_name_state) =
     Some (utf16 ''First name and last name fields mandatory!'')
   \<and> error (handlePersonSubmit addAddress example_state) =
     Some (utf16 ''No address selected, try to select an address or find one if you haven't'')
   \<and> error (handlePersonSubmit addAddress other_selection_state) =
     Some (utf16 ''Selected address not found'')
   \<and> addressBook (handlePersonSubmit addAddress other_selection_state) = []"
proof -
  have names: "trim (firstName (formValues blank_name_state)) = []
      \<or> trim (lastName (formValues blank_name_state)) = []"
    by (simp add: blank_name_state_def found_state_def example_state_def example_raw_def other_selection_state_def string_defs)
  have nothing_found: "trim (firstName (formValues example_state)) \<noteq> []
      \<and> trim (lastName (formValues example_state)) \<noteq> []
      \<and> (selectedAddress (formValues example_state) = [] \<or> addresses example_state = [])"
    by (simp add: blank_name_state_def found_state_def example_state_def example_raw_def other_selection_state_def string_defs)
  have stale: "trim (firstName (formValues other_selection_state)) \<noteq> []
      \<and> trim (lastName (formValues other_selection_state)) \<noteq> []
      \<and> selectedAddress (formValues other_selection_state) \<noteq> []
      \<and> addresses other_selection_state \<noteq> []
      \<and> (\<forall>address \<in> set (addresses other_selection_state).
            addr_id address \<noteq> selectedAddress (formValues other_selection_state))"
    by (simp add: blank_name_state_def found_state_def example_state_def example_raw_def other_selection_state_def string_defs transformAddress_def)
  have book: "addressBook other_selection_state = []"
    by (simp add: blank_name_state_def found_state_def example_state_def example_raw_def other_selection_state_def)
  from person_validation_order [of blank_name_state addAddress] names
    person_validation_order [of example_state addAddress] nothing_found
    person_validation_order [of other_selection_state addAddress] stale book
  show ?thesis by simp
qed

text \<open>
  C5. A person submission that passes the three checks appends exactly one entry to the
  end of the address book: the entry has the fields of the first address of the result
  list with the selected identifier, the first name and the last name of the form. The
  earlier entries stay in place, and the form values are not cleared.
\<close>

theorem person_submission_appends:
  assumes names: "trim (firstName (formValues st)) \<noteq> []" "trim (lastName (formValues st)) \<noteq> []"
    and selection: "selectedAddress (formValues st) \<noteq> []" "addresses st \<noteq> []"
    and matched: "\<exists>address \<in> set (addresses st). addr_id address = selectedAddress (formValues st)"
  shows "\<exists>found entry.
      find (\<lambda>address. addr_id address = selectedAddress (formValues st)) (addresses st) = Some found
      \<and> found \<in> set (addresses st) \<and> addr_id found = selectedAddress (formValues st)
      \<and> address.truncate entry = found
      \<and> entry_firstName entry = firstName (formValues st)
      \<and> entry_lastName entry = lastName (formValues st)
      \<and> addressBook (handlePersonSubmit addAddress st) = addressBook st @ [entry]
      \<and> formValues (handlePersonSubmit addAddress st) = formValues st"
proof -
  from find_id_Some [OF matched] obtain found where
    found: "find (\<lambda>address. addr_id address = selectedAddress (formValues st)) (addresses st) = Some found"
      "found \<in> set (addresses st)" "addr_id found = selectedAddress (formValues st)"
    by blast
  let ?entry = "withPerson found (firstName (formValues st)) (lastName (formValues st))"
  have "handlePersonSubmit addAddress st = st\<lparr>addressBook := addressBook st @ [?entry]\<rparr>"
    using names selection found(1) by (simp add: handlePersonSubmit_def Let_def addAddress_def)
  then have "addressBook (handlePersonSubmit addAddress st) = addressBook st @ [?entry]"
    and "formValues (handlePersonSubmit addAddress st) = formValues st"
    by simp_all
  with found show ?thesis
    using truncate_withPerson names_withPerson by blast
qed

theorem person_submission_appends_witness:
  "addressBook (handlePersonSubmit addAddress found_state) =
     [withPerson (transformAddress example_raw (JString (utf16 ''350''))) (utf16 ''A'') (utf16 ''B'')]
   \<and> formValues (handlePersonSubmit addAddress found_state) = formValues found_state"
proof -
  have pre: "trim (firstName (formValues found_state)) \<noteq> []"
      "trim (lastName (formValues found_state)) \<noteq> []"
      "selectedAddress (formValues found_state) \<noteq> []" "addresses found_state \<noteq> []"
      "\<exists>address \<in> set (addresses found_state).
         addr_id address = selectedAddress (formValues found_state)"
    by (simp_all add: found_state_def example_state_def example_raw_def string_defs transformAddress_def)
  from person_submission_appends [OF pre] obtain found entry where
    r: "find (\<lambda>address. addr_id address = selectedAddress (formValues found_state))
          (addresses found_state) = Some found"
      "address.truncate entry = found"
      "entry_firstName entry = firstName (formValues found_state)"
      "entry_lastName entry = lastName (formValues found_state)"
      "addressBook (handlePersonSubmit addAddress found_state) = addressBook found_state @ [entry]"
      "formValues (handlePersonSubmit addAddress found_state) = formValues found_state"
    by blast
  from r(1) have "found = transformAddress example_raw (JString (utf16 ''350''))"
    by (simp add: found_state_def example_state_def example_raw_def transformAddress_def utf16_def)
  with r(2,3,4) have "entry =
      withPerson (transformAddress example_raw (JString (utf16 ''350''))) (utf16 ''A'') (utf16 ''B'')"
    by (cases entry)
      (simp add: address.truncate_def withPerson_def transformAddress_def found_state_def example_state_def example_raw_def)
  with r(5,6) show ?thesis
    by (simp add: found_state_def example_state_def example_raw_def)
qed

section \<open>Properties of the button "Clear all fields"\<close>

text \<open>
  C8. One click on "Clear all fields" is one transition of the page, after which the form
  values are the initial ones, the result list is empty and there is no error message;
  nothing else of the state changes.
\<close>

theorem clear_all_resets_everything:
  "formValues (clearAllFields st) = initialValues
   \<and> addresses (clearAllFields st) = []
   \<and> error (clearAllFields st) = None
   \<and> clearAllFields st = st\<lparr>formValues := initialValues, addresses := [], error := None\<rparr>"
  by (simp add: clearAllFields_def reset_def)

end
